theory Spec2Isabelle
  imports Complex_Main
begin

section \<open>JavaScript values that reach the payment code\<close>

text \<open>
  The provider's JSON carries numbers and strings. The callback sends \<open>ResultCode\<close> as a
  number, the status query sends it as a string, and the source compares with \<open>===\<close>, which
  never identifies a number with a string: the constructors of \<open>jsval\<close> keep the two apart.
  \<open>undefined\<close> and \<open>null\<close> are \<open>None\<close> of an option type.
\<close>

datatype jsval = JNum rat | JStr string

text \<open>JavaScript truthiness, as used by \<open>x || d\<close>: \<open>0\<close>, \<open>''\<close> and \<open>undefined\<close> are falsy.\<close>

fun truthy :: "jsval \<Rightarrow> bool" where
  "truthy (JNum n) = (n \<noteq> 0)"
| "truthy (JStr s) = (s \<noteq> [])"

fun or_default :: "jsval option \<Rightarrow> jsval \<Rightarrow> jsval" where
  "or_default None d = d"
| "or_default (Some v) d = (if truthy v then v else d)"

section \<open>Numbers in the store\<close>

text \<open>
  The repository's default store is sqlite. Its \<open>DECIMAL(10, 2)\<close> columns keep a whole
  number as it is written, \<open>SUM\<close> adds whole numbers exactly, and JavaScript's \<open>>=\<close>
  compares them exactly, as long as no magnitude exceeds \<open>2^53\<close>. \<open>whole_number\<close> reads
  such a value.
\<close>

fun whole_number :: "jsval \<Rightarrow> rat option" where
  "whole_number (JNum r) =
     (if of_int \<lfloor>r\<rfloor> = r \<and> \<bar>r\<bar> \<le> 9007199254740992 then Some r else None)"
| "whole_number (JStr s) = None"

text \<open>
  On every other value (a fraction, a string) the store converts, adds and compares in its
  own way, with binary floating point for fractions. That arithmetic is outside the
  program text and is a parameter of the embedding:
  \<^item> \<open>column_value\<close>: what a \<open>DECIMAL\<close> column then holds for a value written to it;
  \<^item> \<open>sum_values\<close>: what \<open>Payment.sum\<close> returns for the amounts of the matching rows
    (\<open>None\<close> is \<open>null\<close>);
  \<^item> \<open>ge_values\<close>: the outcome of \<open>totalPaid >= invoice.amount\<close>.
\<close>

record platform =
  column_value :: "jsval \<Rightarrow> jsval"
  sum_values :: "jsval list \<Rightarrow> jsval option"
  ge_values :: "jsval option \<Rightarrow> jsval \<Rightarrow> bool"

text \<open>A value as a \<open>DECIMAL\<close> column holds it after a write.\<close>

definition store_decimal :: "platform \<Rightarrow> jsval \<Rightarrow> jsval" where
  "store_decimal pf v = (case whole_number v of Some r \<Rightarrow> v | None \<Rightarrow> column_value pf v)"

text \<open>\<open>SUM\<close> over column values.\<close>

definition sum_decimals :: "platform \<Rightarrow> jsval list \<Rightarrow> jsval option" where
  "sum_decimals pf xs =
     (case those (map whole_number xs) of
        Some rs \<Rightarrow>
          if rs \<noteq> [] \<and> sum_list (map abs rs) \<le> 9007199254740992
          then Some (JNum (sum_list rs))
          else sum_values pf xs
      | None \<Rightarrow> sum_values pf xs)"

text \<open>\<open>totalPaid >= amount\<close>\<close>

definition js_ge :: "platform \<Rightarrow> jsval option \<Rightarrow> jsval \<Rightarrow> bool" where
  "js_ge pf totalPaid amt =
     (case (Option.bind totalPaid whole_number, whole_number amt) of
        (Some x, Some y) \<Rightarrow> y \<le> x
      | _ \<Rightarrow> ge_values pf totalPaid amt)"

section \<open>Data model\<close>

datatype payment_status = Pending | Processing | Completed | Failed | Cancelled

datatype invoice_status = Draft | Sent | Paid | Overdue | InvCancelled

record Item =
  Name :: string
  Value :: jsval

text \<open>\<open>callbackData.Body.stkCallback\<close>, the provider's asynchronous result envelope.\<close>

record stkCallback =
  CheckoutRequestID :: string
  ResultCode :: jsval
  ResultDesc :: string
  CallbackMetadata :: "Item list option"

text \<open>
  A request body: \<open>None\<close> is a body in which \<open>callbackData.Body.stkCallback\<close> is not an
  object, so that reading a property of it throws a \<open>TypeError\<close>.
\<close>

type_synonym callbackData = "stkCallback option"

text \<open>
  models/Payment.js. \<open>transaction_id\<close> and \<open>account_reference\<close> are never written by the
  payment code and are left out, as are the \<open>created_at\<close>/\<open>updated_at\<close> clock columns.
\<close>

record Payment =
  payment_id :: string
  amount :: jsval
  mpesa_receipt :: "jsval option"
  phone_number :: jsval
  transaction_time :: "jsval option"
  status :: payment_status
  checkout_request_id :: "string option"
  merchant_request_id :: "string option"
  result_code :: "jsval option"
  result_desc :: "string option"
  callback_metadata :: "callbackData option"
  invoice_id :: string
  user_id :: string

text \<open>models/Invoice.js, the fields the payment code reads or writes.\<close>

record Invoice =
  inv_id :: string
  invoice_number :: string
  inv_amount :: jsval
  inv_status :: invoice_status
  inv_user_id :: string

record db =
  payments :: "Payment list"
  invoices :: "Invoice list"

section \<open>Errors\<close>

text \<open>
  middleware/errorHandler.js: the \<open>ApiError\<close> subclasses with their status codes; a
  unique-constraint violation is answered 400 by \<open>errorHandler\<close>; any other exception has
  no \<open>statusCode\<close> and is answered 500.
\<close>

datatype js_error =
  NotFoundError string
| BadRequestError string
| ConflictError string
| SequelizeUniqueConstraintError
| TypeError

fun statusCode :: "js_error \<Rightarrow> nat" where
  "statusCode (NotFoundError m) = 404"
| "statusCode (BadRequestError m) = 400"
| "statusCode (ConflictError m) = 409"
| "statusCode SequelizeUniqueConstraintError = 400"
| "statusCode TypeError = 500"

text \<open>
  \<open>error.message\<close>. \<open>NotFoundError\<close> appends \<open>not found\<close> to its argument; the text
  of a \<open>TypeError\<close> is the engine's.
\<close>

fun error_message :: "js_error \<Rightarrow> string" where
  "error_message (NotFoundError resource) = resource @ '' not found''"
| "error_message (BadRequestError m) = m"
| "error_message (ConflictError m) = m"
| "error_message SequelizeUniqueConstraintError = ''Validation error''"
| "error_message TypeError = ''Cannot read properties of undefined''"

text \<open>The HTTP status of an endpoint that answers \<open>res.json\<close> or calls \<open>next(error)\<close>.\<close>

fun http_status :: "js_error + 'a \<Rightarrow> nat" where
  "http_status (Inl e) = statusCode e"
| "http_status (Inr r) = 200"

section \<open>Storage operations\<close>

text \<open>\<open>Payment.findOne({ where: { checkout_request_id } })\<close>\<close>

definition Payment_findOne :: "string \<Rightarrow> db \<Rightarrow> Payment option" where
  "Payment_findOne c d = find (\<lambda>p. checkout_request_id p = Some c) (payments d)"

text \<open>\<open>payment.update(values)\<close>: an \<open>UPDATE\<close> of the row with the instance's primary key.\<close>

definition Payment_update :: "Payment \<Rightarrow> (Payment \<Rightarrow> Payment) \<Rightarrow> db \<Rightarrow> db" where
  "Payment_update payment f d =
     d\<lparr>payments := map (\<lambda>q. if payment_id q = payment_id payment then f q else q) (payments d)\<rparr>"

text \<open>\<open>Payment.sum('amount', { where: { invoice_id, status: 'completed' } })\<close>\<close>

definition completed_amounts :: "string \<Rightarrow> db \<Rightarrow> jsval list" where
  "completed_amounts iid d =
     map amount (filter (\<lambda>q. invoice_id q = iid \<and> status q = Completed) (payments d))"

definition Payment_sum :: "platform \<Rightarrow> string \<Rightarrow> db \<Rightarrow> jsval option" where
  "Payment_sum pf iid d = sum_decimals pf (completed_amounts iid d)"

text \<open>\<open>payment.getInvoice()\<close> and the \<open>include\<close> of the invoice: the row the foreign key names.\<close>

definition getInvoice :: "Payment \<Rightarrow> db \<Rightarrow> Invoice option" where
  "getInvoice payment d = find (\<lambda>i. inv_id i = invoice_id payment) (invoices d)"

text \<open>\<open>invoice.update({ status: 'paid' })\<close>\<close>

definition Invoice_update_paid :: "Invoice \<Rightarrow> db \<Rightarrow> db" where
  "Invoice_update_paid invoice d =
     d\<lparr>invoices := map (\<lambda>j. if inv_id j = inv_id invoice then j\<lparr>inv_status := Paid\<rparr> else j) (invoices d)\<rparr>"

text \<open>
  The block both reconciliation paths run after a success: sum the completed attempts of
  the invoice and mark it paid when \<open>totalPaid >= invoice.amount\<close>.
\<close>

definition covers :: "platform \<Rightarrow> string \<Rightarrow> Invoice \<Rightarrow> db \<Rightarrow> bool" where
  "covers pf iid invoice d =
     (let totalPaid = Payment_sum pf iid d
      in js_ge pf totalPaid (inv_amount invoice))"

definition markPaidIfCovered :: "platform \<Rightarrow> string \<Rightarrow> Invoice \<Rightarrow> db \<Rightarrow> db" where
  "markPaidIfCovered pf iid invoice d =
     (if covers pf iid invoice d then Invoice_update_paid invoice d else d)"

section \<open>services/mpesa.service.js: handleCallback\<close>

datatype handler_result = Success | Failure string

text \<open>\<open>metadata.find(item => item.Name === name)?.Value\<close>\<close>

definition item_value :: "string \<Rightarrow> Item list \<Rightarrow> jsval option" where
  "item_value name metadata = map_option Value (find (\<lambda>item. Name item = name) metadata)"

text \<open>The fields a success callback writes to the attempt.\<close>

definition callback_success_values :: "platform \<Rightarrow> stkCallback \<Rightarrow> Payment \<Rightarrow> Payment" where
  "callback_success_values pf callback q =
     (let metadata = (case CallbackMetadata callback of None \<Rightarrow> [] | Some items \<Rightarrow> items);
          receipt = or_default (item_value ''MpesaReceiptNumber'' metadata) (JStr []);
          amount' = or_default (item_value ''Amount'' metadata) (JNum 0);
          phone = or_default (item_value ''PhoneNumber'' metadata) (JStr []);
          transactionDate = or_default (item_value ''TransactionDate'' metadata) (JStr [])
      in q\<lparr>status := Completed,
            mpesa_receipt := Some receipt,
            amount := store_decimal pf amount',
            phone_number := phone,
            transaction_time := (if truthy transactionDate then Some transactionDate else None),
            result_code := Some (ResultCode callback),
            result_desc := Some (ResultDesc callback),
            callback_metadata := Some (Some callback)\<rparr>)"

text \<open>The fields any other callback writes.\<close>

definition callback_failure_values :: "stkCallback \<Rightarrow> Payment \<Rightarrow> Payment" where
  "callback_failure_values callback q =
     q\<lparr>status := Failed,
       result_code := Some (ResultCode callback),
       result_desc := Some (ResultDesc callback),
       callback_metadata := Some (Some callback)\<rparr>"

text \<open>The body of the \<open>try\<close>: \<open>Inl\<close> is an exception raised inside it.\<close>

definition handleCallback_try ::
  "platform \<Rightarrow> callbackData \<Rightarrow> db \<Rightarrow> (js_error + handler_result) \<times> db" where
  "handleCallback_try pf callbackData d =
     (case callbackData of
        None \<Rightarrow> (Inl TypeError, d)
      | Some callback \<Rightarrow>
          (case Payment_findOne (CheckoutRequestID callback) d of
             None \<Rightarrow> (Inr (Failure ''Payment not found''), d)
           | Some payment \<Rightarrow>
               if ResultCode callback = JNum 0 then
                 (let d1 = Payment_update payment (callback_success_values pf callback) d
                  in case getInvoice (callback_success_values pf callback payment) d1 of
                       None \<Rightarrow> (Inl TypeError, d1)
                     | Some invoice \<Rightarrow> (Inr Success, markPaidIfCovered pf (inv_id invoice) invoice d1))
               else
                 (Inr Success, Payment_update payment (callback_failure_values callback) d)))"

text \<open>The \<open>catch\<close> turns every exception into a failure value: the function never throws.\<close>

definition handleCallback :: "platform \<Rightarrow> callbackData \<Rightarrow> db \<Rightarrow> handler_result \<times> db" where
  "handleCallback pf callbackData d =
     (case handleCallback_try pf callbackData d of
        (Inl e, d') \<Rightarrow> (Failure (error_message e), d')
      | (Inr r, d') \<Rightarrow> (r, d'))"

section \<open>The provider, as seen by the controller\<close>

text \<open>
  \<open>initiateSTKPush\<close> and the service's \<open>checkPaymentStatus\<close> catch every failure of the
  outbound call (transport error, timeout, rejection, token failure) and return
  \<open>{ success: false, error }\<close>; otherwise \<open>{ success: true, data }\<close>. The provider is
  outside the program: its answer is an argument of the controller functions below.
\<close>

text \<open>
  What the controller reads from a failure: the values of the optional chains
  \<open>response.error?.response?.data?.errorCode\<close> and \<open>...?.errorMessage\<close>.
\<close>

record provider_error =
  errorCode :: "jsval option"
  errorMessage :: "string option"

datatype 'a service_response = ServiceSuccess 'a | ServiceFailure provider_error

text \<open>\<open>response.data\<close> of the status query.\<close>

record query_data =
  qResultCode :: jsval
  qResultDesc :: string
  MpesaReceiptNumber :: "jsval option"
  TransactionDate :: "jsval option"

text \<open>\<open>response.data\<close> of the push initiation.\<close>

record stk_data =
  stkCheckoutRequestID :: string
  stkMerchantRequestID :: string

section \<open>controllers/payment.controller.js: checkPaymentStatus\<close>

text \<open>The JSON answer: \<open>data.status\<close> and \<open>message\<close> (the body also echoes the attempt).\<close>

record status_reply =
  reply_status :: payment_status
  reply_message :: "string option"

definition poll_success_values :: "query_data \<Rightarrow> Payment \<Rightarrow> Payment" where
  "poll_success_values data q =
     q\<lparr>status := Completed,
       mpesa_receipt := MpesaReceiptNumber data,
       transaction_time := TransactionDate data,
       result_code := Some (qResultCode data),
       result_desc := Some (qResultDesc data)\<rparr>"

definition poll_failure_values :: "query_data \<Rightarrow> Payment \<Rightarrow> Payment" where
  "poll_failure_values data q =
     q\<lparr>status := Failed,
       result_code := Some (qResultCode data),
       result_desc := Some (qResultDesc data)\<rparr>"

definition checkPaymentStatus ::
  "platform \<Rightarrow> query_data service_response \<Rightarrow> string \<Rightarrow> db \<Rightarrow> (js_error + status_reply) \<times> db" where
  "checkPaymentStatus pf response checkoutRequestId d =
     (case Payment_findOne checkoutRequestId d of
        None \<Rightarrow> (Inl (NotFoundError ''Payment not found''), d)
      | Some payment \<Rightarrow>
          if status payment = Completed then
            (Inr \<lparr>reply_status = Completed, reply_message = None\<rparr>, d)
          else
            (case response of
               ServiceFailure e \<Rightarrow> (Inl (BadRequestError ''Failed to check payment status''), d)
             | ServiceSuccess data \<Rightarrow>
                 if qResultCode data = JStr ''0'' then
                   (let d1 = Payment_update payment (poll_success_values data) d
                    in case getInvoice payment d of
                         None \<Rightarrow> (Inl TypeError, d1)
                       | Some invoice \<Rightarrow>
                           (Inr \<lparr>reply_status = Completed,
                                 reply_message = Some ''Payment completed successfully''\<rparr>,
                            markPaidIfCovered pf (invoice_id payment) invoice d1))
                 else if qResultCode data \<noteq> JStr ''1032'' then
                   (Inr \<lparr>reply_status = Failed, reply_message = Some ''Payment failed''\<rparr>,
                    Payment_update payment (poll_failure_values data) d)
                 else
                   (Inr \<lparr>reply_status = status payment,
                         reply_message = Some ''Payment status checked successfully''\<rparr>, d)))"

section \<open>Phone formatting\<close>

text \<open>\<open>String.prototype.startsWith\<close>, \<open>substring(1)\<close> and \<open>trim\<close> (ASCII white space).\<close>

definition startsWith :: "string \<Rightarrow> string \<Rightarrow> bool" where
  "startsWith s p = (take (length p) s = p)"

definition substring1 :: "string \<Rightarrow> string" where
  "substring1 s = drop 1 s"

definition is_space :: "char \<Rightarrow> bool" where
  "is_space c = (c \<in> set [CHR '' '', CHR 0x09, CHR 0x0A, CHR 0x0B, CHR 0x0C, CHR 0x0D])"

definition trim :: "string \<Rightarrow> string" where
  "trim s = rev (dropWhile is_space (rev (dropWhile is_space s)))"

text \<open>The controller's \<open>formattedPhone\<close> (payment.controller.js, lines 30-36).\<close>

definition initiatePayment_formattedPhone :: "string \<Rightarrow> string" where
  "initiatePayment_formattedPhone phoneNumber =
     (let formattedPhone = trim phoneNumber
      in if startsWith formattedPhone ''0'' then ''254'' @ substring1 formattedPhone
         else if \<not> startsWith formattedPhone ''254'' then ''254'' @ formattedPhone
         else formattedPhone)"

text \<open>The service's \<open>formattedPhone\<close> (mpesa.service.js, \<open>initiateSTKPush\<close>).\<close>

definition initiateSTKPush_formattedPhone :: "string \<Rightarrow> string" where
  "initiateSTKPush_formattedPhone phoneNumber =
     (if startsWith phoneNumber ''0'' then ''254'' @ substring1 phoneNumber
      else if startsWith phoneNumber ''+'' then substring1 phoneNumber
      else phoneNumber)"

text \<open>
  The number that reaches the provider (\<open>PartyA\<close>, \<open>PhoneNumber\<close>) for a request's
  \<open>phoneNumber\<close>: the controller formats it and hands it to the service, which formats it again.
\<close>

definition provider_phone :: "string \<Rightarrow> string" where
  "provider_phone phoneNumber =
     initiateSTKPush_formattedPhone (initiatePayment_formattedPhone phoneNumber)"

definition is_digit :: "char \<Rightarrow> bool" where
  "is_digit c = (c \<in> set ''0123456789'')"

section \<open>controllers/payment.controller.js: initiatePayment\<close>

record initiate_request =
  invoiceId :: string
  phoneNumber :: string
  userId :: string

text \<open>\<open>Invoice.findOne({ where: { id: invoiceId, user_id: userId } })\<close>\<close>

definition Invoice_findOne :: "string \<Rightarrow> string \<Rightarrow> db \<Rightarrow> Invoice option" where
  "Invoice_findOne iid uid d = find (\<lambda>i. inv_id i = iid \<and> inv_user_id i = uid) (invoices d)"

text \<open>
  The row \<open>Payment.create\<close> inserts; \<open>new_id\<close> is the generated UUID. The amount is the
  invoice's, a value read from a \<open>DECIMAL\<close> column of the same store.
\<close>

definition new_payment :: "string \<Rightarrow> Invoice \<Rightarrow> string \<Rightarrow> string \<Rightarrow> Payment" where
  "new_payment new_id invoice formattedPhone uid =
     \<lparr>payment_id = new_id,
      amount = inv_amount invoice,
      mpesa_receipt = None,
      phone_number = JStr formattedPhone,
      transaction_time = None,
      status = Pending,
      checkout_request_id = None,
      merchant_request_id = None,
      result_code = None,
      result_desc = None,
      callback_metadata = None,
      invoice_id = inv_id invoice,
      user_id = uid\<rparr>"

definition initiate_failure_values :: "provider_error \<Rightarrow> Payment \<Rightarrow> Payment" where
  "initiate_failure_values e q =
     q\<lparr>status := Failed,
       result_code := Some (or_default (errorCode e) (JStr ''UNKNOWN_ERROR'')),
       result_desc := Some (case errorMessage e of
                              None \<Rightarrow> ''Failed to initiate payment''
                            | Some m \<Rightarrow> if m \<noteq> [] then m else ''Failed to initiate payment'')\<rparr>"

definition initiate_success_values :: "stk_data \<Rightarrow> Payment \<Rightarrow> Payment" where
  "initiate_success_values data q =
     q\<lparr>checkout_request_id := Some (stkCheckoutRequestID data),
       merchant_request_id := Some (stkMerchantRequestID data)\<rparr>"

text \<open>
  The primary key and \<open>checkout_request_id\<close> are declared unique: an insert or update that
  would repeat one is refused by the store.
\<close>

definition initiatePayment ::
  "initiate_request \<Rightarrow> string \<Rightarrow> stk_data service_response \<Rightarrow> db \<Rightarrow> (js_error + Payment) \<times> db" where
  "initiatePayment req new_id response d =
     (case Invoice_findOne (invoiceId req) (userId req) d of
        None \<Rightarrow> (Inl (NotFoundError ''Invoice not found''), d)
      | Some invoice \<Rightarrow>
          if inv_status invoice = Paid then
            (Inl (BadRequestError ''This invoice has already been paid''), d)
          else if new_id \<in> set (map payment_id (payments d)) then
            (Inl SequelizeUniqueConstraintError, d)
          else
            (let formattedPhone = initiatePayment_formattedPhone (phoneNumber req);
                 payment = new_payment new_id invoice formattedPhone (userId req);
                 d1 = d\<lparr>payments := payments d @ [payment]\<rparr>
             in case response of
                  ServiceFailure e \<Rightarrow>
                    (Inl (BadRequestError ''Failed to initiate payment''),
                     Payment_update payment (initiate_failure_values e) d1)
                | ServiceSuccess data \<Rightarrow>
                    if Some (stkCheckoutRequestID data) \<in> set (map checkout_request_id (payments d1)) then
                      (Inl SequelizeUniqueConstraintError, d1)
                    else
                      (Inr (initiate_success_values data payment),
                       Payment_update payment (initiate_success_values data) d1)))"

section \<open>controllers/payment.controller.js: mpesaCallback\<close>

record callback_ack =
  ack_status :: nat
  ack_ResultCode :: nat
  ack_ResultDesc :: string

text \<open>
  The answer to the provider, from what \<open>await mpesaService.handleCallback(callbackData)\<close>
  did: \<open>Inr\<close> a returned value (which the controller does not look at), \<open>Inl\<close> an exception.
\<close>

fun mpesaCallback_respond :: "js_error + handler_result \<Rightarrow> callback_ack" where
  "mpesaCallback_respond (Inr r) =
     \<lparr>ack_status = 200, ack_ResultCode = 0, ack_ResultDesc = ''Callback processed successfully''\<rparr>"
| "mpesaCallback_respond (Inl e) =
     \<lparr>ack_status = 200, ack_ResultCode = 1, ack_ResultDesc = ''Error processing callback''\<rparr>"

definition mpesaCallback :: "platform \<Rightarrow> callbackData \<Rightarrow> db \<Rightarrow> callback_ack \<times> db" where
  "mpesaCallback pf callbackData d =
     (case handleCallback pf callbackData d of (r, d') \<Rightarrow> (mpesaCallback_respond (Inr r), d'))"

section \<open>Result codes on the two channels\<close>

text \<open>
  The provider reports one result code as a JSON number in the callback and as its decimal
  string in the answer to the status query.
\<close>

definition digit_char :: "nat \<Rightarrow> char" where
  "digit_char k = ''0123456789'' ! (k mod 10)"

fun decimal :: "nat \<Rightarrow> string" where
  "decimal n = (if n < 10 then [digit_char n] else decimal (n div 10) @ [digit_char n])"

declare decimal.simps [simp del]

section \<open>A concrete run\<close>

definition example_invoice :: Invoice where
  "example_invoice =
     \<lparr>inv_id = ''inv-1'', invoice_number = ''INV-0001'', inv_amount = JNum 500,
      inv_status = Sent, inv_user_id = ''user-1''\<rparr>"

definition db_before :: db where
  "db_before = \<lparr>payments = [], invoices = [example_invoice]\<rparr>"

definition example_request :: initiate_request where
  "example_request = \<lparr>invoiceId = ''inv-1'', phoneNumber = ''0712345678'', userId = ''user-1''\<rparr>"

text \<open>The store after a push for the invoice was accepted with checkout reference \<open>ws_1\<close>.\<close>

definition db_pending :: db where
  "db_pending =
     snd (initiatePayment example_request ''pay-1''
            (ServiceSuccess \<lparr>stkCheckoutRequestID = ''ws_1'', stkMerchantRequestID = ''mr_1''\<rparr>)
            db_before)"

definition cb_success :: stkCallback where
  "cb_success =
     \<lparr>CheckoutRequestID = ''ws_1'', ResultCode = JNum 0,
      ResultDesc = ''The service request is processed successfully.'',
      CallbackMetadata = Some
        [\<lparr>Name = ''Amount'', Value = JNum 500\<rparr>,
         \<lparr>Name = ''MpesaReceiptNumber'', Value = JStr ''QWE123''\<rparr>,
         \<lparr>Name = ''TransactionDate'', Value = JNum 20191219102115\<rparr>,
         \<lparr>Name = ''PhoneNumber'', Value = JNum 254712345678\<rparr>]\<rparr>"


definition cb_failure :: stkCallback where
  "cb_failure =
     \<lparr>CheckoutRequestID = ''ws_1'', ResultCode = JNum 1,
      ResultDesc = ''The balance is insufficient for the transaction.'',
      CallbackMetadata = None\<rparr>"

definition cb_cancelled :: stkCallback where
  "cb_cancelled =
     \<lparr>CheckoutRequestID = ''ws_1'', ResultCode = JNum 1032,
      ResultDesc = ''Request cancelled by user'',
      CallbackMetadata = None\<rparr>"

definition cb_unknown :: stkCallback where
  "cb_unknown =
     \<lparr>CheckoutRequestID = ''ws_9'', ResultCode = JNum 0,
      ResultDesc = ''The service request is processed successfully.'',
      CallbackMetadata = None\<rparr>"

definition q_failure :: query_data where
  "q_failure =
     \<lparr>qResultCode = JStr ''1'', qResultDesc = ''The balance is insufficient for the transaction.'',
      MpesaReceiptNumber = None, TransactionDate = None\<rparr>"

definition q_cancelled :: query_data where
  "q_cancelled =
     \<lparr>qResultCode = JStr ''1032'', qResultDesc = ''Request cancelled by user'',
      MpesaReceiptNumber = None, TransactionDate = None\<rparr>"

definition q_success :: query_data where
  "q_success =
     \<lparr>qResultCode = JStr ''0'', qResultDesc = ''The service request is processed successfully.'',
      MpesaReceiptNumber = None, TransactionDate = None\<rparr>"

text \<open>
  A platform to run the examples on: one that keeps a written value as it is and adds and
  compares numbers exactly, as a store with true decimals does. The examples hold whole
  amounts only, on which the outcome is the same on every platform.
\<close>

definition exact_decimals :: platform where
  "exact_decimals =
     \<lparr>column_value = (\<lambda>v. v),
      sum_values = (\<lambda>xs. case those (map (\<lambda>v. case v of JNum r \<Rightarrow> Some r | JStr s \<Rightarrow> None) xs) of
                           Some rs \<Rightarrow> if rs = [] then None else Some (JNum (sum_list rs))
                         | None \<Rightarrow> None),
      ge_values = (\<lambda>totalPaid amt. case (totalPaid, amt) of
                                   (Some (JNum x), JNum y) \<Rightarrow> y \<le> x
                                 | (None, JNum y) \<Rightarrow> y \<le> 0
                                 | _ \<Rightarrow> False)\<rparr>"

text \<open>The store after the success callback, and after a failure callback instead.\<close>

definition db_completed :: "platform \<Rightarrow> db" where
  "db_completed pf = snd (handleCallback pf (Some cb_success) db_pending)"

definition db_failed :: "platform \<Rightarrow> db" where
  "db_failed pf = snd (handleCallback pf (Some cb_failure) db_pending)"

section \<open>Auxiliary facts\<close>

lemma find_map_preserving:
  "(\<And>x. P (g x) = P x) \<Longrightarrow> find P (map g xs) = map_option g (find P xs)"
  by (induction xs) simp_all

lemma callback_success_values_keeps [simp]:
  "checkout_request_id (callback_success_values pf cb q) = checkout_request_id q"
  "payment_id (callback_success_values pf cb q) = payment_id q"
  "invoice_id (callback_success_values pf cb q) = invoice_id q"
  "status (callback_success_values pf cb q) = Completed"
  by (simp_all add: callback_success_values_def Let_def)

lemma callback_failure_values_keeps [simp]:
  "checkout_request_id (callback_failure_values cb q) = checkout_request_id q"
  "payment_id (callback_failure_values cb q) = payment_id q"
  "invoice_id (callback_failure_values cb q) = invoice_id q"
  "amount (callback_failure_values cb q) = amount q"
  "status (callback_failure_values cb q) = Failed"
  by (simp_all add: callback_failure_values_def)

lemma poll_success_values_keeps [simp]:
  "checkout_request_id (poll_success_values data q) = checkout_request_id q"
  "payment_id (poll_success_values data q) = payment_id q"
  "invoice_id (poll_success_values data q) = invoice_id q"
  "amount (poll_success_values data q) = amount q"
  "status (poll_success_values data q) = Completed"
  by (simp_all add: poll_success_values_def)

lemma poll_failure_values_keeps [simp]:
  "checkout_request_id (poll_failure_values data q) = checkout_request_id q"
  "payment_id (poll_failure_values data q) = payment_id q"
  "invoice_id (poll_failure_values data q) = invoice_id q"
  "amount (poll_failure_values data q) = amount q"
  "status (poll_failure_values data q) = Failed"
  by (simp_all add: poll_failure_values_def)

lemma Payment_findOne_update:
  assumes "Payment_findOne c d = Some p"
    and "\<And>q. checkout_request_id (f q) = checkout_request_id q"
  shows "Payment_findOne c (Payment_update p f d) = Some (f p)"
proof -
  let ?g = "\<lambda>q. if payment_id q = payment_id p then f q else q"
  have "find (\<lambda>q. checkout_request_id q = Some c) (map ?g (payments d))
        = map_option ?g (find (\<lambda>q. checkout_request_id q = Some c) (payments d))"
    by (rule find_map_preserving) (simp add: assms(2))
  with assms(1) show ?thesis
    by (simp add: Payment_findOne_def Payment_update_def)
qed

lemma payments_markPaidIfCovered [simp]:
  "payments (markPaidIfCovered pf iid invoice d) = payments d"
  by (simp add: markPaidIfCovered_def Invoice_update_paid_def Let_def)

lemma invoices_Payment_update [simp]:
  "invoices (Payment_update p f d) = invoices d"
  by (simp add: Payment_update_def)

lemma Payment_findOne_cong:
  "payments d = payments d' \<Longrightarrow> Payment_findOne c d = Payment_findOne c d'"
  by (simp add: Payment_findOne_def)

lemma covers_cong:
  "payments d = payments d' \<Longrightarrow> inv_amount i = inv_amount i' \<Longrightarrow>
   covers pf k i d = covers pf k i' d'"
  by (simp add: covers_def Payment_sum_def completed_amounts_def)

lemma getInvoice_cong:
  "invoices d = invoices d' \<Longrightarrow> invoice_id p = invoice_id p' \<Longrightarrow> getInvoice p d = getInvoice p' d'"
  by (simp add: getInvoice_def)

lemma payments_handleCallback:
  assumes "Payment_findOne (CheckoutRequestID cb) d = Some p"
  shows "payments (snd (handleCallback pf (Some cb) d)) =
         payments (Payment_update p
           (if ResultCode cb = JNum 0 then callback_success_values pf cb else callback_failure_values cb) d)"
  using assms
  by (simp add: handleCallback_def handleCallback_try_def Let_def split: option.splits)

lemma payments_checkPaymentStatus:
  assumes "Payment_findOne c d = Some p" "status p \<noteq> Completed"
  shows "payments (snd (checkPaymentStatus pf (ServiceSuccess data) c d)) =
         (if qResultCode data = JStr ''0'' then payments (Payment_update p (poll_success_values data) d)
          else if qResultCode data \<noteq> JStr ''1032'' then payments (Payment_update p (poll_failure_values data) d)
          else payments d)"
  using assms
  by (simp add: checkPaymentStatus_def Let_def split: option.splits)

subsection \<open>Decimal strings\<close>

lemma digit_char_inj:
  assumes "digit_char a = digit_char b"
  shows "a mod 10 = b mod 10"
proof -
  have r: "\<And>k::nat. k < 10 \<Longrightarrow> k \<in> {0, 1, 2, 3, 4, 5, 6, 7, 8, 9}"
    by auto
  have a: "a mod 10 \<in> {0, 1, 2, 3, 4, 5, 6, 7, 8, 9}" by (rule r) simp
  have b: "b mod 10 \<in> {0, 1, 2, 3, 4, 5, 6, 7, 8, 9}" by (rule r) simp
  from assms have "''0123456789'' ! (a mod 10) = ''0123456789'' ! (b mod 10)"
    by (simp add: digit_char_def)
  with a b show ?thesis
    by (elim insertE emptyE) simp_all
qed

lemma decimal_not_Nil: "decimal n \<noteq> []"
  by (subst decimal.simps) simp

lemma decimal_inj: "decimal m = decimal n \<Longrightarrow> m = n"
proof (induction m arbitrary: n rule: decimal.induct)
  case (1 m)
  show ?case
  proof (cases "m < 10")
    case True
    show ?thesis
    proof (cases "n < 10")
      case True
      with \<open>m < 10\<close> "1.prems" have "digit_char m = digit_char n"
        by (simp add: decimal.simps [of m] decimal.simps [of n])
      then have "m mod 10 = n mod 10" by (rule digit_char_inj)
      with True \<open>m < 10\<close> show ?thesis by simp
    next
      case False
      with \<open>m < 10\<close> "1.prems" have "decimal (n div 10) = []"
        by (simp add: decimal.simps [of m] decimal.simps [of n])
      then show ?thesis by (simp add: decimal_not_Nil)
    qed
  next
    case False
    show ?thesis
    proof (cases "n < 10")
      case True
      with \<open>\<not> m < 10\<close> "1.prems" have "decimal (m div 10) = []"
        by (simp add: decimal.simps [of m] decimal.simps [of n])
      then show ?thesis by (simp add: decimal_not_Nil)
    next
      case n: False
      with False "1.prems" have e: "decimal (m div 10) = decimal (n div 10)"
        and dg: "digit_char m = digit_char n"
        by (simp_all add: decimal.simps [of m] decimal.simps [of n])
      from "1.IH" [OF False e] have "m div 10 = n div 10" .
      moreover from dg have "m mod 10 = n mod 10" by (rule digit_char_inj)
      ultimately show ?thesis by (metis div_mult_mod_eq)
    qed
  qed
qed

lemma decimal_0: "decimal 0 = ''0''"
  by code_simp

lemma decimal_1032: "decimal 1032 = ''1032''"
  by code_simp

lemma decimal_1: "decimal 1 = ''1''"
  by code_simp

lemma decimal_eq_0_iff: "decimal n = ''0'' \<longleftrightarrow> n = 0"
  using decimal_inj [of n 0] decimal_0 by auto

lemma decimal_eq_1032_iff: "decimal n = ''1032'' \<longleftrightarrow> n = 1032"
  using decimal_inj [of n 1032] decimal_1032 by auto

subsection \<open>The concrete run, evaluated\<close>

lemma db_pending_eq:
  "db_pending =
     \<lparr>payments =
        [\<lparr>payment_id = ''pay-1'', amount = JNum 500, mpesa_receipt = None,
          phone_number = JStr ''254712345678'', transaction_time = None,
          status = Pending, checkout_request_id = Some ''ws_1'',
          merchant_request_id = Some ''mr_1'', result_code = None,
          result_desc = None, callback_metadata = None,
          invoice_id = ''inv-1'', user_id = ''user-1''\<rparr>],
      invoices = [example_invoice]\<rparr>"
  by (simp add: db_pending_def db_before_def example_request_def example_invoice_def
      initiatePayment_def Invoice_findOne_def initiatePayment_formattedPhone_def trim_def
      is_space_def startsWith_def substring1_def new_payment_def Payment_update_def
      initiate_success_values_def Let_def)

text \<open>Whole numbers are kept, added and compared without the platform.\<close>

lemma store_decimal_whole: "whole_number v = Some r \<Longrightarrow> store_decimal pf v = v"
  by (simp add: store_decimal_def)





lemma db_completed_eq:
  "(db_completed pf) =
     \<lparr>payments =
        [\<lparr>payment_id = ''pay-1'', amount = JNum 500, mpesa_receipt = Some (JStr ''QWE123''),
          phone_number = JNum 254712345678, transaction_time = Some (JNum 20191219102115),
          status = Completed, checkout_request_id = Some ''ws_1'',
          merchant_request_id = Some ''mr_1'', result_code = Some (JNum 0),
          result_desc = Some ''The service request is processed successfully.'',
          callback_metadata = Some (Some cb_success),
          invoice_id = ''inv-1'', user_id = ''user-1''\<rparr>],
      invoices = [example_invoice\<lparr>inv_status := Paid\<rparr>]\<rparr>"
  by (simp add: db_completed_def db_pending_eq handleCallback_def handleCallback_try_def
      Payment_findOne_def Payment_update_def getInvoice_def markPaidIfCovered_def covers_def
      Payment_sum_def completed_amounts_def sum_decimals_def js_ge_def store_decimal_def
      Invoice_update_paid_def callback_success_values_def item_value_def
      cb_success_def example_invoice_def Let_def)

lemma db_failed_eq:
  "db_failed pf =
     \<lparr>payments =
        [\<lparr>payment_id = ''pay-1'', amount = JNum 500, mpesa_receipt = None,
          phone_number = JStr ''254712345678'', transaction_time = None,
          status = Failed, checkout_request_id = Some ''ws_1'',
          merchant_request_id = Some ''mr_1'', result_code = Some (JNum 1),
          result_desc = Some ''The balance is insufficient for the transaction.'',
          callback_metadata = Some (Some cb_failure),
          invoice_id = ''inv-1'', user_id = ''user-1''\<rparr>],
      invoices = [example_invoice]\<rparr>"
  by (simp add: db_failed_def db_pending_eq handleCallback_def handleCallback_try_def
      Payment_findOne_def Payment_update_def callback_failure_values_def cb_failure_def)

subsection \<open>What the reconciliation paths write\<close>





subsection \<open>Marking an invoice paid\<close>

lemma payments_Invoice_update_paid [simp]:
  "payments (Invoice_update_paid i d) = payments d"
  by (simp add: Invoice_update_paid_def)

lemma covers_Invoice_update_paid [simp]:
  "covers pf k i (Invoice_update_paid i' d) = covers pf k i d"
  by (rule covers_cong) simp_all

lemma Invoice_update_paid_idem:
  "Invoice_update_paid i (Invoice_update_paid i d) = Invoice_update_paid i d"
  by (simp add: Invoice_update_paid_def)

lemma markPaidIfCovered_idem:
  "markPaidIfCovered pf k i (markPaidIfCovered pf k i d) = markPaidIfCovered pf k i d"
  by (simp add: markPaidIfCovered_def Let_def Invoice_update_paid_idem)


lemma covers_markPaidIfCovered [simp]:
  "covers pf k' i' (markPaidIfCovered pf k i d) = covers pf k' i' d"
  by (rule covers_cong) simp_all

lemma markPaidIfCovered_same_invoice:
  "inv_id i' = inv_id i \<Longrightarrow> inv_amount i' = inv_amount i \<Longrightarrow>
   markPaidIfCovered pf k i' d = markPaidIfCovered pf k i d"
  by (simp add: markPaidIfCovered_def Invoice_update_paid_def covers_cong [where d = d and d' = d and i = i' and i' = i])

lemma find_invoice_update_paid:
  "find (\<lambda>j. inv_id j = k) (invoices (Invoice_update_paid i d)) =
   map_option (\<lambda>j. if inv_id j = inv_id i then j\<lparr>inv_status := Paid\<rparr> else j)
     (find (\<lambda>j. inv_id j = k) (invoices d))"
  unfolding Invoice_update_paid_def
  by (simp add: find_map_preserving)

lemma getInvoice_inv_id: "getInvoice p d = Some i \<Longrightarrow> inv_id i = invoice_id p"
  by (auto simp: getInvoice_def find_Some_iff)

lemma getInvoice_markPaidIfCovered:
  assumes "getInvoice p d = Some i" "inv_id i' = inv_id i"
  shows "\<exists>j. getInvoice p (markPaidIfCovered pf k i' d) = Some j \<and> inv_id j = inv_id i
          \<and> inv_amount j = inv_amount i
          \<and> inv_status j = (if covers pf k i' d then Paid else inv_status i)"
  using assms getInvoice_inv_id [OF assms(1)]
  by (auto simp: markPaidIfCovered_def Let_def getInvoice_def find_invoice_update_paid)

lemma snd_handleCallback_success:
  assumes "Payment_findOne (CheckoutRequestID cb) d = Some p"
    and "ResultCode cb = JNum 0"
    and "getInvoice p d = Some i"
  shows "handleCallback pf (Some cb) d =
         (Success, markPaidIfCovered pf (inv_id i) i (Payment_update p (callback_success_values pf cb) d))"
proof -
  have "getInvoice (callback_success_values pf cb p) (Payment_update p (callback_success_values pf cb) d)
        = getInvoice p d"
    by (rule getInvoice_cong) simp_all
  with assms show ?thesis
    by (simp add: handleCallback_def handleCallback_try_def Let_def)
qed


subsection \<open>Repeating an update\<close>

lemma callback_success_values_idem:
  "callback_success_values pf cb (callback_success_values pf cb q) = callback_success_values pf cb q"
  by (simp add: callback_success_values_def Let_def)

lemma Payment_update_again:
  assumes "payments e = payments (Payment_update p f d)"
    and "\<And>q. f (f q) = f q"
    and "\<And>q. payment_id (f q) = payment_id q"
    and "payment_id p' = payment_id p"
  shows "Payment_update p' f e = e"
proof -
  have "map (\<lambda>q. if payment_id q = payment_id p' then f q else q) (payments e) = payments e"
    unfolding assms(1) by (simp add: Payment_update_def assms(2,3,4))
  then show ?thesis
    by (simp add: Payment_update_def)
qed

subsection \<open>Phone formatting on the specification's examples\<close>

lemma initiateSTKPush_formattedPhone_examples:
  "initiateSTKPush_formattedPhone ''0712345678'' = ''254712345678''"
  "initiateSTKPush_formattedPhone ''+254712345678'' = ''254712345678''"
  "initiateSTKPush_formattedPhone ''254712345678'' = ''254712345678''"
  by (simp_all add: initiateSTKPush_formattedPhone_def startsWith_def substring1_def)

lemma initiatePayment_formattedPhone_examples:
  "initiatePayment_formattedPhone ''0712345678'' = ''254712345678''"
  "initiatePayment_formattedPhone ''254712345678'' = ''254712345678''"
  by (simp_all add: initiatePayment_formattedPhone_def trim_def is_space_def startsWith_def
      substring1_def Let_def)

lemma provider_phone_examples:
  "provider_phone ''0712345678'' = ''254712345678''"
  "provider_phone ''254712345678'' = ''254712345678''"
  by (simp_all add: provider_phone_def initiatePayment_formattedPhone_examples
      initiateSTKPush_formattedPhone_examples)

subsection \<open>Creating an attempt\<close>

lemma Payment_update_appended:
  assumes "payment_id p \<notin> set (map payment_id ps)"
  shows "Payment_update p f (d\<lparr>payments := ps @ [p]\<rparr>) = d\<lparr>payments := ps @ [f p]\<rparr>"
proof -
  have "map (\<lambda>q. if payment_id q = payment_id p then f q else q) ps = ps"
    using assms by (induction ps) auto
  then show ?thesis
    by (simp add: Payment_update_def)
qed

lemma payment_id_new_payment [simp]: "payment_id (new_payment new_id i ph uid) = new_id"
  by (simp add: new_payment_def)

section \<open>Terminal states\<close>

text \<open>
  The attempt of the concrete run, failed by a callback, is polled and the provider now
  answers with result code 0: the poll marks the failed attempt completed and the invoice
  paid. The only stored state the poll looks at is \<open>completed\<close>.
\<close>

theorem terminal_absorbing_counterexample:
  "map status (payments (db_failed exact_decimals)) = [Failed]
   \<and> map status (payments (snd (checkPaymentStatus exact_decimals (ServiceSuccess q_success)
          ''ws_1'' (db_failed exact_decimals)))) = [Completed]
   \<and> map inv_status (invoices (snd (checkPaymentStatus exact_decimals (ServiceSuccess q_success)
          ''ws_1'' (db_failed exact_decimals)))) = [Paid]"
  by (simp add: db_failed_eq checkPaymentStatus_def Payment_findOne_def Payment_update_def
      getInvoice_def markPaidIfCovered_def covers_def Payment_sum_def completed_amounts_def
      sum_decimals_def js_ge_def Invoice_update_paid_def poll_success_values_def q_success_def
      example_invoice_def Let_def)

text \<open>
  C1, as the code has it. A poll of an attempt that is already completed answers
  \<open>completed\<close> at once, whatever the provider would say, and leaves the store as it is.
\<close>

theorem completed_poll_noop:
  assumes "Payment_findOne c d = Some p"
    and "status p = Completed"
  shows "checkPaymentStatus pf response c d =
           (Inr \<lparr>reply_status = Completed, reply_message = None\<rparr>, d)"
  using assms by (simp add: checkPaymentStatus_def)

theorem completed_poll_noop_witness:
  "Payment_findOne ''ws_1'' (db_completed exact_decimals) =
     Some (hd (payments (db_completed exact_decimals)))
   \<and> status (hd (payments (db_completed exact_decimals))) = Completed
   \<and> checkPaymentStatus exact_decimals (ServiceSuccess q_failure) ''ws_1'' (db_completed exact_decimals) =
       (Inr \<lparr>reply_status = Completed, reply_message = None\<rparr>, db_completed exact_decimals)"
proof -
  have f: "Payment_findOne ''ws_1'' (db_completed exact_decimals) =
             Some (hd (payments (db_completed exact_decimals)))"
    by (simp add: db_completed_eq Payment_findOne_def)
  have s: "status (hd (payments (db_completed exact_decimals))) = Completed"
    by (simp add: db_completed_eq)
  show ?thesis
    using completed_poll_noop [OF f s, of exact_decimals "ServiceSuccess q_failure"] f s
    by simp
qed

section \<open>The two ingress paths\<close>

text \<open>
  The same failure result for the same checkout reference, on an attempt that is already
  completed: the callback marks it failed, the poll leaves it completed.
\<close>

theorem paths_converge_counterexample:
  "map status (payments (db_completed exact_decimals)) = [Completed]
   \<and> map status (payments (snd (handleCallback exact_decimals (Some cb_failure) (db_completed exact_decimals)))) = [Failed]
   \<and> map status (payments (snd (checkPaymentStatus exact_decimals (ServiceSuccess q_failure) ''ws_1'' (db_completed exact_decimals)))) = [Completed]"
  by (simp add: db_completed_eq handleCallback_def handleCallback_try_def checkPaymentStatus_def
      Payment_findOne_def Payment_update_def callback_failure_values_def cb_failure_def)

text \<open>
  C2, as the code has it. For an attempt that is not completed and a result code other
  than 1032, sent as a number to the callback and as its decimal string to the poll, both
  paths leave the attempt with the same status: completed for code 0, failed otherwise.
\<close>

theorem paths_agree_on_status:
  assumes "Payment_findOne c d = Some p"
    and "status p \<noteq> Completed"
    and "n \<noteq> 1032"
    and "CheckoutRequestID cb = c"
    and "ResultCode cb = JNum (of_nat n)"
    and "qResultCode data = JStr (decimal n)"
  shows "map_option status (Payment_findOne c (snd (handleCallback pf (Some cb) d))) =
           Some (if n = 0 then Completed else Failed)
       \<and> map_option status (Payment_findOne c (snd (checkPaymentStatus pf (ServiceSuccess data) c d))) =
           Some (if n = 0 then Completed else Failed)"
proof
  let ?f = "if ResultCode cb = JNum 0 then callback_success_values pf cb else callback_failure_values cb"
  have "Payment_findOne c (snd (handleCallback pf (Some cb) d)) = Payment_findOne c (Payment_update p ?f d)"
    using assms(1,4) by (intro Payment_findOne_cong payments_handleCallback) simp
  also have "\<dots> = Some (?f p)"
    using assms(1) by (intro Payment_findOne_update) simp_all
  finally show "map_option status (Payment_findOne c (snd (handleCallback pf (Some cb) d))) =
           Some (if n = 0 then Completed else Failed)"
    using assms(5) by simp
next
  let ?g = "if n = 0 then poll_success_values data else poll_failure_values data"
  have "payments (snd (checkPaymentStatus pf (ServiceSuccess data) c d)) = payments (Payment_update p ?g d)"
    using assms(3,6) by (simp add: payments_checkPaymentStatus [OF assms(1,2)] decimal_eq_0_iff decimal_eq_1032_iff)
  then have "Payment_findOne c (snd (checkPaymentStatus pf (ServiceSuccess data) c d)) =
             Payment_findOne c (Payment_update p ?g d)"
    by (rule Payment_findOne_cong)
  also have "\<dots> = Some (?g p)"
    using assms(1) by (intro Payment_findOne_update) simp_all
  finally show "map_option status (Payment_findOne c (snd (checkPaymentStatus pf (ServiceSuccess data) c d))) =
           Some (if n = 0 then Completed else Failed)"
    by simp
qed

theorem paths_agree_on_status_witness:
  "Payment_findOne ''ws_1'' db_pending = Some (hd (payments db_pending))
   \<and> status (hd (payments db_pending)) \<noteq> Completed
   \<and> (1::nat) \<noteq> 1032
   \<and> CheckoutRequestID cb_failure = ''ws_1''
   \<and> ResultCode cb_failure = JNum (of_nat 1)
   \<and> qResultCode q_failure = JStr (decimal 1)
   \<and> map_option status (Payment_findOne ''ws_1'' (snd (handleCallback exact_decimals (Some cb_failure) db_pending))) =
        Some Failed
   \<and> map_option status (Payment_findOne ''ws_1'' (snd (checkPaymentStatus exact_decimals (ServiceSuccess q_failure) ''ws_1'' db_pending))) =
        Some Failed"
proof -
  have f: "Payment_findOne ''ws_1'' db_pending = Some (hd (payments db_pending))"
    by (simp add: db_pending_eq Payment_findOne_def)
  have s: "status (hd (payments db_pending)) \<noteq> Completed"
    by (simp add: db_pending_eq)
  have n: "(1::nat) \<noteq> 1032" by simp
  have c: "CheckoutRequestID cb_failure = ''ws_1''"
    by (simp add: cb_failure_def)
  have r: "ResultCode cb_failure = JNum (of_nat 1)"
    by (simp add: cb_failure_def)
  have q: "qResultCode q_failure = JStr (decimal 1)"
    unfolding decimal_1 by (simp add: q_failure_def)
  show ?thesis
    using paths_agree_on_status [OF f s n c r q] f s c r q by simp
qed

section \<open>The transient code 1032\<close>

text \<open>
  C3 at a pending attempt. A callback with result code 1032 marks the attempt failed; the
  poll, given the same code, leaves the store as it was.
\<close>

theorem callback_1032_marks_failed:
  "map status (payments db_pending) = [Pending]
   \<and> map status (payments (snd (handleCallback exact_decimals (Some cb_cancelled) db_pending))) = [Failed]
   \<and> snd (checkPaymentStatus exact_decimals (ServiceSuccess q_cancelled) ''ws_1'' db_pending) = db_pending"
  by (simp add: db_pending_eq handleCallback_def handleCallback_try_def checkPaymentStatus_def
      Payment_findOne_def Payment_update_def callback_failure_values_def cb_cancelled_def q_cancelled_def)

section \<open>The amount of an attempt\<close>




section \<open>The paid status of an invoice\<close>




section \<open>A repeated success callback\<close>

text \<open>
  C9. A success callback applied to the store that the same callback has just produced
  returns the same value and leaves that store as it is: the attempts and the invoices
  after two deliveries are those after one.
\<close>

theorem callback_idempotent:
  assumes "ResultCode cb = JNum 0"
  shows "handleCallback pf (Some cb) (snd (handleCallback pf (Some cb) d)) = handleCallback pf (Some cb) d"
proof (cases "Payment_findOne (CheckoutRequestID cb) d")
  case None
  then show ?thesis
    by (simp add: handleCallback_def handleCallback_try_def)
next
  case (Some p)
  let ?f = "callback_success_values pf cb"
  let ?d1 = "Payment_update p ?f d"
  have f1: "Payment_findOne (CheckoutRequestID cb) ?d1 = Some (?f p)"
    using Some by (intro Payment_findOne_update) simp_all
  have u1: "Payment_update (?f p) ?f ?d1 = ?d1"
    by (rule Payment_update_again [where p = p and d = d]) (simp_all add: callback_success_values_idem)
  have g1: "getInvoice (?f p) ?d1 = getInvoice p d"
    by (rule getInvoice_cong) simp_all
  show ?thesis
  proof (cases "getInvoice p d")
    case None
    with Some assms g1 have r: "handleCallback pf (Some cb) d = (Failure (error_message TypeError), ?d1)"
      by (simp add: handleCallback_def handleCallback_try_def Let_def)
    from None g1 have "getInvoice (?f (?f p)) ?d1 = None"
      by (simp add: callback_success_values_idem)
    with f1 u1 assms have "handleCallback pf (Some cb) ?d1 = (Failure (error_message TypeError), ?d1)"
      by (simp add: handleCallback_def handleCallback_try_def Let_def)
    with r show ?thesis by simp
  next
    case i: (Some i)
    let ?d2 = "markPaidIfCovered pf (inv_id i) i ?d1"
    from Some assms i have r: "handleCallback pf (Some cb) d = (Success, ?d2)"
      by (rule snd_handleCallback_success)
    have f2: "Payment_findOne (CheckoutRequestID cb) ?d2 = Some (?f p)"
      using f1 Payment_findOne_cong [of ?d2 ?d1] by simp
    have "getInvoice p ?d1 = Some i"
      using i getInvoice_cong [of ?d1 d p p] by simp
    from getInvoice_markPaidIfCovered [OF this, where i' = i and pf = pf and k = "inv_id i"]
    obtain j where j: "getInvoice p ?d2 = Some j" "inv_id j = inv_id i" "inv_amount j = inv_amount i"
      by auto
    have g2: "getInvoice (?f p) ?d2 = Some j"
      using j(1) getInvoice_cong [of ?d2 ?d2 "?f p" p] by simp
    have u2: "Payment_update (?f p) ?f ?d2 = ?d2"
      by (rule Payment_update_again [where p = p and d = d]) (simp_all add: callback_success_values_idem)
    have "handleCallback pf (Some cb) ?d2 =
          (Success, markPaidIfCovered pf (inv_id j) j (Payment_update (?f p) ?f ?d2))"
      using f2 assms g2 by (rule snd_handleCallback_success)
    also have "markPaidIfCovered pf (inv_id j) j (Payment_update (?f p) ?f ?d2) = ?d2"
      using j(2,3) by (simp add: u2 markPaidIfCovered_same_invoice [where i' = j and i = i] markPaidIfCovered_idem)
    finally show ?thesis
      using r by simp
  qed
qed

theorem callback_idempotent_witness:
  "ResultCode cb_success = JNum 0
   \<and> handleCallback exact_decimals (Some cb_success) db_pending = (Success, (db_completed exact_decimals))
   \<and> handleCallback exact_decimals (Some cb_success) (db_completed exact_decimals) = (Success, (db_completed exact_decimals))
   \<and> map status (payments (db_completed exact_decimals)) = [Completed]
   \<and> map inv_status (invoices (db_completed exact_decimals)) = [Paid]"
proof -
  have r: "ResultCode cb_success = JNum 0"
    by (simp add: cb_success_def)
  have f: "Payment_findOne (CheckoutRequestID cb_success) db_pending = Some (hd (payments db_pending))"
    by (simp add: db_pending_eq Payment_findOne_def cb_success_def)
  have g: "getInvoice (hd (payments db_pending)) db_pending = Some example_invoice"
    by (simp add: db_pending_eq getInvoice_def example_invoice_def)
  have 1: "handleCallback exact_decimals (Some cb_success) db_pending = (Success, (db_completed exact_decimals))"
    unfolding db_completed_def by (subst (1 2) snd_handleCallback_success [OF f r g]) simp
  from callback_idempotent [OF r, where pf = exact_decimals and d = db_pending, folded db_completed_def] 1
  have 2: "handleCallback exact_decimals (Some cb_success) (db_completed exact_decimals) = (Success, (db_completed exact_decimals))"
    by simp
  from r 1 2 show ?thesis
    by (simp add: db_completed_eq)
qed

section \<open>Phone numbers that start with a plus sign\<close>

text \<open>
  C6 at \<open>+254712345678\<close>. The controller of the initiation prefixes every number that does
  not start with \<open>0\<close> or \<open>254\<close>, so the number stored with the attempt and passed on is
  \<open>254+254712345678\<close>; the service, which would have stripped the plus sign, then finds
  none in front and sends that string, which is not made of digits, to the provider.
\<close>

theorem plus_prefixed_phone_not_normalized:
  "initiatePayment_formattedPhone ''+254712345678'' = ''254+254712345678''
   \<and> provider_phone ''+254712345678'' = ''254+254712345678''
   \<and> \<not> list_all is_digit (provider_phone ''+254712345678'')
   \<and> map phone_number (payments (snd (initiatePayment
          (example_request\<lparr>phoneNumber := ''+254712345678''\<rparr>) ''pay-1''
          (ServiceSuccess \<lparr>stkCheckoutRequestID = ''ws_1'', stkMerchantRequestID = ''mr_1''\<rparr>)
          db_before))) = [JStr ''254+254712345678'']"
  by (simp add: provider_phone_def initiatePayment_formattedPhone_def
      initiateSTKPush_formattedPhone_def trim_def is_space_def startsWith_def substring1_def
      is_digit_def initiatePayment_def Invoice_findOne_def new_payment_def Payment_update_def
      initiate_success_values_def example_request_def example_invoice_def db_before_def Let_def)

section \<open>Status codes of the initiation\<close>

text \<open>
  An initiation for the invoice of the concrete run, once it is paid, is answered 400.
\<close>

theorem paid_invoice_conflict_counterexample:
  "map inv_status (invoices (db_completed exact_decimals)) = [Paid]
   \<and> http_status (fst (initiatePayment example_request ''pay-2''
         (ServiceSuccess \<lparr>stkCheckoutRequestID = ''ws_2'', stkMerchantRequestID = ''mr_2''\<rparr>)
         (db_completed exact_decimals))) = 400"
  by (simp add: db_completed_eq initiatePayment_def Invoice_findOne_def example_request_def
      example_invoice_def)

text \<open>
  C7, as the code has it. The initiation is answered 404 when the owner has no such
  invoice, 400 when the invoice is already paid (nothing is stored then), and 400 when
  the provider call fails.
\<close>

theorem initiate_status_codes:
  "(Invoice_findOne (invoiceId req) (userId req) d = None \<longrightarrow>
      http_status (fst (initiatePayment req new_id response d)) = 404)
   \<and> (Invoice_findOne (invoiceId req) (userId req) d = Some i \<and> inv_status i = Paid \<longrightarrow>
        initiatePayment req new_id response d =
          (Inl (BadRequestError ''This invoice has already been paid''), d)
        \<and> http_status (fst (initiatePayment req new_id response d)) = 400)
   \<and> (Invoice_findOne (invoiceId req) (userId req) d = Some i \<and> inv_status i \<noteq> Paid \<longrightarrow>
        http_status (fst (initiatePayment req new_id (ServiceFailure e) d)) = 400)"
  by (simp add: initiatePayment_def Let_def)

theorem initiate_status_codes_witness:
  "Invoice_findOne ''inv-7'' ''user-1'' db_pending = None
   \<and> http_status (fst (initiatePayment (example_request\<lparr>invoiceId := ''inv-7''\<rparr>) ''pay-2''
         (ServiceFailure \<lparr>errorCode = None, errorMessage = None\<rparr>) db_pending)) = 404
   \<and> Invoice_findOne ''inv-1'' ''user-1'' (db_completed exact_decimals) = Some (example_invoice\<lparr>inv_status := Paid\<rparr>)
   \<and> http_status (fst (initiatePayment example_request ''pay-2''
         (ServiceFailure \<lparr>errorCode = None, errorMessage = None\<rparr>) (db_completed exact_decimals))) = 400
   \<and> Invoice_findOne ''inv-1'' ''user-1'' db_pending = Some example_invoice
   \<and> inv_status example_invoice \<noteq> Paid
   \<and> http_status (fst (initiatePayment example_request ''pay-2''
         (ServiceFailure \<lparr>errorCode = None, errorMessage = None\<rparr>) db_pending)) = 400"
proof -
  let ?r = "ServiceFailure \<lparr>errorCode = None, errorMessage = None\<rparr>"
  have a: "Invoice_findOne (invoiceId (example_request\<lparr>invoiceId := ''inv-7''\<rparr>))
             (userId (example_request\<lparr>invoiceId := ''inv-7''\<rparr>)) db_pending = None"
    by (simp add: db_pending_eq Invoice_findOne_def example_request_def example_invoice_def)
  have b: "Invoice_findOne (invoiceId example_request) (userId example_request) (db_completed exact_decimals) =
             Some (example_invoice\<lparr>inv_status := Paid\<rparr>)"
    by (simp add: db_completed_eq Invoice_findOne_def example_request_def example_invoice_def)
  have c: "Invoice_findOne (invoiceId example_request) (userId example_request) db_pending =
             Some example_invoice"
    by (simp add: db_pending_eq Invoice_findOne_def example_request_def example_invoice_def)
  have s: "inv_status example_invoice \<noteq> Paid"
    by (simp add: example_invoice_def)
  from initiate_status_codes [of "example_request\<lparr>invoiceId := ''inv-7''\<rparr>" db_pending "''pay-2''" ?r] a
  have 1: "http_status (fst (initiatePayment (example_request\<lparr>invoiceId := ''inv-7''\<rparr>) ''pay-2'' ?r db_pending)) = 404"
    by simp
  from initiate_status_codes [of example_request "db_completed exact_decimals" "''pay-2''" ?r "example_invoice\<lparr>inv_status := Paid\<rparr>"] b
  have 2: "http_status (fst (initiatePayment example_request ''pay-2'' ?r (db_completed exact_decimals))) = 400"
    by simp
  from initiate_status_codes [of example_request db_pending "''pay-2''" ?r example_invoice] c s
  have 3: "http_status (fst (initiatePayment example_request ''pay-2'' ?r db_pending)) = 400"
    by simp
  from a b c s 1 2 3 show ?thesis
    by (simp add: example_request_def)
qed

section \<open>A failed provider call\<close>

text \<open>
  The initiation of the concrete run, when the provider call fails: the attempt just
  created is stored as failed.
\<close>

theorem gateway_failure_counterexample:
  "map status (payments (snd (initiatePayment example_request ''pay-1''
       (ServiceFailure \<lparr>errorCode = None, errorMessage = None\<rparr>) db_before))) = [Failed]"
  by (simp add: initiatePayment_def Invoice_findOne_def new_payment_def Payment_update_def
      initiate_failure_values_def example_request_def example_invoice_def db_before_def Let_def)

text \<open>
  C8, as the code has it. When the provider call of an initiation fails, the request is
  answered with a \<open>BadRequestError\<close> (400) and the store gains exactly one attempt, the one
  just created, with status failed, the provider's error code and message or their
  defaults, and no checkout reference.
\<close>

theorem gateway_failure_marks_failed:
  assumes "Invoice_findOne (invoiceId req) (userId req) d = Some i"
    and "inv_status i \<noteq> Paid"
    and "new_id \<notin> set (map payment_id (payments d))"
  shows "(\<exists>q. initiatePayment req new_id (ServiceFailure e) d =
               (Inl (BadRequestError ''Failed to initiate payment''),
                d\<lparr>payments := payments d @ [q]\<rparr>)
          \<and> payment_id q = new_id \<and> status q = Failed
          \<and> checkout_request_id q = None \<and> amount q = inv_amount i
          \<and> result_code q = Some (or_default (errorCode e) (JStr ''UNKNOWN_ERROR'')))
       \<and> http_status (fst (initiatePayment req new_id (ServiceFailure e) d)) = 400"
proof -
  let ?p = "new_payment new_id i (initiatePayment_formattedPhone (phoneNumber req)) (userId req)"
  have "Payment_update ?p (initiate_failure_values e) (d\<lparr>payments := payments d @ [?p]\<rparr>) =
        d\<lparr>payments := payments d @ [initiate_failure_values e ?p]\<rparr>"
    using assms(3) by (intro Payment_update_appended) simp
  with assms have "initiatePayment req new_id (ServiceFailure e) d =
               (Inl (BadRequestError ''Failed to initiate payment''),
                d\<lparr>payments := payments d @ [initiate_failure_values e ?p]\<rparr>)"
    by (simp add: initiatePayment_def Let_def)
  moreover have "payment_id (initiate_failure_values e ?p) = new_id
      \<and> status (initiate_failure_values e ?p) = Failed
      \<and> checkout_request_id (initiate_failure_values e ?p) = None
      \<and> amount (initiate_failure_values e ?p) = inv_amount i
      \<and> result_code (initiate_failure_values e ?p) =
          Some (or_default (errorCode e) (JStr ''UNKNOWN_ERROR''))"
    by (simp add: initiate_failure_values_def new_payment_def)
  ultimately show ?thesis by auto
qed

theorem gateway_failure_marks_failed_witness:
  "Invoice_findOne (invoiceId example_request) (userId example_request) db_before = Some example_invoice
   \<and> inv_status example_invoice \<noteq> Paid
   \<and> ''pay-1'' \<notin> set (map payment_id (payments db_before))
   \<and> (\<exists>q. initiatePayment example_request ''pay-1''
              (ServiceFailure \<lparr>errorCode = None, errorMessage = None\<rparr>) db_before =
               (Inl (BadRequestError ''Failed to initiate payment''),
                db_before\<lparr>payments := payments db_before @ [q]\<rparr>)
          \<and> payment_id q = ''pay-1'' \<and> status q = Failed
          \<and> checkout_request_id q = None \<and> amount q = JNum 500
          \<and> result_code q = Some (JStr ''UNKNOWN_ERROR''))
   \<and> http_status (fst (initiatePayment example_request ''pay-1''
              (ServiceFailure \<lparr>errorCode = None, errorMessage = None\<rparr>) db_before)) = 400"
proof -
  have a: "Invoice_findOne (invoiceId example_request) (userId example_request) db_before = Some example_invoice"
    by (simp add: db_before_def Invoice_findOne_def example_request_def example_invoice_def)
  have b: "inv_status example_invoice \<noteq> Paid"
    by (simp add: example_invoice_def)
  have c: "''pay-1'' \<notin> set (map payment_id (payments db_before))"
    by (simp add: db_before_def)
  have v: "inv_amount example_invoice = JNum 500"
    by (simp add: example_invoice_def)
  from gateway_failure_marks_failed [OF a b c, of "\<lparr>errorCode = None, errorMessage = None\<rparr>"] a b c v
  show ?thesis by simp
qed

section \<open>The answer to the provider\<close>

text \<open>
  C10. Whatever the callback and the store, the endpoint answers 200 with result code 0
  and the description \<open>Callback processed successfully\<close>. When no attempt has the
  callback's checkout reference the handler returns the failure value
  \<open>Payment not found\<close>, the store is untouched and the answer is still result code 0.
  The controller answers result code 1 exactly when the awaited handler call throws, and
  then too with status 200.
\<close>

theorem callback_always_acknowledged:
  "fst (mpesaCallback pf callbackData d) =
     \<lparr>ack_status = 200, ack_ResultCode = 0, ack_ResultDesc = ''Callback processed successfully''\<rparr>
   \<and> (Payment_findOne (CheckoutRequestID cb) d = None \<longrightarrow>
        handleCallback pf (Some cb) d = (Failure ''Payment not found'', d)
        \<and> mpesaCallback pf (Some cb) d =
            (\<lparr>ack_status = 200, ack_ResultCode = 0,
              ack_ResultDesc = ''Callback processed successfully''\<rparr>, d))
   \<and> (ack_ResultCode (mpesaCallback_respond outcome) = 1 \<longleftrightarrow> (\<exists>e. outcome = Inl e))
   \<and> ack_status (mpesaCallback_respond outcome) = 200"
  by (cases outcome) (simp_all add: mpesaCallback_def handleCallback_def handleCallback_try_def
      split: prod.splits)

theorem callback_always_acknowledged_witness:
  "Payment_findOne (CheckoutRequestID cb_unknown) db_pending = None
   \<and> handleCallback exact_decimals (Some cb_unknown) db_pending = (Failure ''Payment not found'', db_pending)
   \<and> mpesaCallback exact_decimals (Some cb_unknown) db_pending =
        (\<lparr>ack_status = 200, ack_ResultCode = 0,
          ack_ResultDesc = ''Callback processed successfully''\<rparr>, db_pending)
   \<and> ack_ResultCode (mpesaCallback_respond (Inl TypeError)) = 1"
proof -
  have n: "Payment_findOne (CheckoutRequestID cb_unknown) db_pending = None"
    by (simp add: db_pending_eq Payment_findOne_def cb_unknown_def)
  from callback_always_acknowledged [where pf = exact_decimals and callbackData = "Some cb_unknown"
      and d = db_pending and cb = cb_unknown and outcome = "Inl TypeError"] n
  show ?thesis by simp
qed

end
